theory Spec2Isabelle
  imports Main
begin

section \<open>Strings\<close>

text \<open>
  A Python \<open>str\<close> is a sequence of code points. The model keeps the code points
  below 256: a \<^typ>\<open>char\<close> is the code point of that number, and a \<^typ>\<open>string\<close> is a
  \<open>str\<close> made of such code points. The two classifications of characters that the
  source uses are written out for this range.
\<close>

definition isspace :: "char \<Rightarrow> bool" where
  \<comment> \<open>\<open>str.isspace\<close>: the characters that \<open>str.strip()\<close> removes\<close>
  "isspace c =
     (let n = (of_char c :: nat)
      in (9 \<le> n \<and> n \<le> 13) \<or> (28 \<le> n \<and> n \<le> 32) \<or> n = 133 \<or> n = 160)"

definition isdigit :: "char \<Rightarrow> bool" where
  \<comment> \<open>\<open>str.isdigit\<close>: the decimal digits and the superscripts two, three and one\<close>
  "isdigit c =
     (let n = (of_char c :: nat)
      in (48 \<le> n \<and> n \<le> 57) \<or> n = 178 \<or> n = 179 \<or> n = 185)"

definition lstrip :: "string \<Rightarrow> string" where
  "lstrip s = dropWhile isspace s"

definition rstrip :: "string \<Rightarrow> string" where
  "rstrip s = rev (dropWhile isspace (rev s))"

definition strip :: "string \<Rightarrow> string" where
  \<comment> \<open>\<open>str.strip()\<close> with no argument\<close>
  "strip s = lstrip (rstrip s)"

section \<open>Errors\<close>

datatype value_error =
    EmptyNumber    \<comment> \<open>the number is empty (source line 99)\<close>
  | NoDigits       \<comment> \<open>the number has no digit (source line 107)\<close>
  | BadJSON        \<comment> \<open>\<open>response.json()\<close> on a body that is not JSON\<close>
  | OutOfRange     \<comment> \<open>\<open>datetime.utcfromtimestamp\<close> on a timestamp outside the years 1 to 9999\<close>

datatype error =
    ValueError value_error
  | RuntimeError               \<comment> \<open>the credentials of the gateway are missing\<close>
  | HTTPError nat              \<comment> \<open>\<open>raise_for_status\<close>, with the status code of the response\<close>
  | RequestException           \<comment> \<open>\<open>requests.post\<close> failed: network error or timeout\<close>
  | AttributeError             \<comment> \<open>\<open>.get\<close> on a value that is not a dict\<close>
  | IntegrityError             \<comment> \<open>a NOT NULL column received NULL at flush\<close>
  | HTTPException nat          \<comment> \<open>\<open>abort(code)\<close> and \<open>get_or_404\<close>\<close>
  | LookupError                \<comment> \<open>\<open>abort(code)\<close> with a code that has no exception class\<close>

section \<open>Chat-identifier normalization\<close>

definition normalize_chat_id :: "string \<Rightarrow> error + string" where
  "normalize_chat_id raw_number =
     (if raw_number = [] then Inl (ValueError EmptyNumber)
      else
        let raw_number = strip raw_number in
        if CHR ''@'' \<in> set raw_number then Inr raw_number
        else
          let digits = filter isdigit raw_number in
          if digits = [] then Inl (ValueError NoDigits)
          else Inr (digits @ ''@c.us''))"

section \<open>The persistence store\<close>

text \<open>
  A \<open>datetime\<close> is a naive UTC time, counted in seconds from the epoch.
  \<open>datetime.utcfromtimestamp\<close> converts a Unix timestamp to it, and raises for a
  timestamp outside the years 1 to 9999 (\<open>ValueError\<close>, or \<open>OverflowError\<close> further
  out; the model has the one error \<open>ValueError OutOfRange\<close> for both): the first
  second of year 1 is \<open>-62135596800\<close> and the last second of year 9999 is
  \<open>253402300799\<close>. \<open>datetime.utcnow()\<close> reads the clock: a handler receives the
  readings as a function \<open>now\<close>, where \<open>now l\<close> is what \<open>utcnow()\<close> returns at source
  line \<open>l\<close> during this request.
\<close>

type_synonym datetime = int

definition utcfromtimestamp :: "int \<Rightarrow> error + datetime" where
  "utcfromtimestamp t =
     (if - 62135596800 \<le> t \<and> t \<le> 253402300799 then Inr t
      else Inl (ValueError OutOfRange))"

text \<open>
  The two tables. The primary keys \<open>id\<close> are called \<open>conv_id\<close> and \<open>msg_id\<close>.
  A column declared \<open>nullable=False\<close> has a type without \<open>None\<close>: a stored row
  cannot hold NULL there, and an insert of NULL fails (\<open>add_conversation\<close> below).
\<close>

record conversation =
  conv_id :: nat
  contact_number :: string
  contact_name :: "string option"
  created_at :: datetime
  updated_at :: datetime

record message =
  msg_id :: nat
  conversation_id :: nat
  sender_type :: string
  message_text :: string
  sent_at :: datetime
  external_id :: "string option"

text \<open>
  The committed state of the database: the rows of each table, in the order of their
  insertion. A handler computes on a value of this type as its session; \<open>commit\<close>
  makes the value it reached the new state, and a rollback or an exception that leaves
  the handler keeps the state the request started from.
\<close>

record store =
  conversations :: "conversation list"
  messages :: "message list"

definition next_id :: "nat list \<Rightarrow> nat" where
  \<comment> \<open>an \<open>INTEGER PRIMARY KEY\<close> of SQLite: one more than the largest key of the table\<close>
  "next_id ids = Suc (fold max ids 0)"

definition find_conversation :: "store \<Rightarrow> string option \<Rightarrow> conversation option" where
  \<comment> \<open>\<open>Conversation.query.filter_by(contact_number=chat_id).first()\<close>; a \<open>None\<close>
      argument compares with \<open>IS NULL\<close>, which no row of a NOT NULL column satisfies\<close>
  "find_conversation s chat_id =
     (case chat_id of
        None \<Rightarrow> None
      | Some n \<Rightarrow> find (\<lambda>c. contact_number c = n) (conversations s))"

definition get_conversation :: "store \<Rightarrow> nat \<Rightarrow> conversation option" where
  \<comment> \<open>the lookup by primary key of \<open>Conversation.query.get_or_404\<close>\<close>
  "get_conversation s i = find (\<lambda>c. conv_id c = i) (conversations s)"

definition add_conversation ::
  "store \<Rightarrow> string option \<Rightarrow> string option \<Rightarrow> datetime \<Rightarrow> datetime
     \<Rightarrow> error + (conversation \<times> store)" where
  \<comment> \<open>\<open>Conversation(...)\<close>, \<open>db.session.add\<close>, \<open>db.session.flush()\<close>: the row
      receives its key\<close>
  "add_conversation s number name created updated =
     (case number of
        None \<Rightarrow> Inl IntegrityError
      | Some n \<Rightarrow>
          let c = \<lparr>conv_id = next_id (map conv_id (conversations s)),
                   contact_number = n, contact_name = name,
                   created_at = created, updated_at = updated\<rparr>
          in Inr (c, s\<lparr>conversations := conversations s @ [c]\<rparr>))"

definition add_message ::
  "store \<Rightarrow> nat \<Rightarrow> string \<Rightarrow> string \<Rightarrow> datetime \<Rightarrow> string option \<Rightarrow> store" where
  \<comment> \<open>\<open>Message(...)\<close> and \<open>db.session.add\<close>\<close>
  "add_message s cid sender txt t ext =
     s\<lparr>messages := messages s @
        [\<lparr>msg_id = next_id (map msg_id (messages s)), conversation_id = cid,
          sender_type = sender, message_text = txt, sent_at = t, external_id = ext\<rparr>]\<rparr>"

definition set_updated_at :: "store \<Rightarrow> nat \<Rightarrow> datetime \<Rightarrow> store" where
  \<comment> \<open>\<open>conversation.updated_at = ...\<close>: an UPDATE of the row with this key\<close>
  "set_updated_at s cid t =
     s\<lparr>conversations :=
        map (\<lambda>c. if conv_id c = cid then c\<lparr>updated_at := t\<rparr> else c) (conversations s)\<rparr>"

definition set_sent_at :: "store \<Rightarrow> nat \<Rightarrow> datetime \<Rightarrow> store" where
  \<comment> \<open>\<open>existing_message.sent_at = ...\<close>: an UPDATE of the row with this key\<close>
  "set_sent_at s mid t =
     s\<lparr>messages :=
        map (\<lambda>m. if msg_id m = mid then m\<lparr>sent_at := t\<rparr> else m) (messages s)\<rparr>"

fun latest :: "message list \<Rightarrow> message option" where
  \<comment> \<open>\<open>order_by(Message.id.desc()).first()\<close>: the row with the largest key\<close>
  "latest [] = None"
| "latest (m # ms) =
     (case latest ms of
        None \<Rightarrow> Some m
      | Some b \<Rightarrow> if msg_id m < msg_id b then Some b else Some m)"

definition find_existing_message :: "store \<Rightarrow> string option \<Rightarrow> nat \<Rightarrow> message option" where
  \<comment> \<open>\<open>Message.query.filter_by(external_id=..., conversation_id=...)\<close> ordered by
      \<open>id\<close> descending, \<open>.first()\<close>; \<open>filter_by\<close> compares a \<open>None\<close> argument with
      \<open>IS NULL\<close>, so \<open>None\<close> matches the rows whose \<open>external_id\<close> is NULL\<close>
  "find_existing_message s ext cid =
     latest (filter (\<lambda>m. external_id m = ext \<and> conversation_id m = cid) (messages s))"

definition find_message_by_external_id :: "store \<Rightarrow> string \<Rightarrow> message option" where
  \<comment> \<open>\<open>Message.query.filter_by(external_id=external_id).first()\<close>\<close>
  "find_message_by_external_id s ext = find (\<lambda>m. external_id m = Some ext) (messages s)"

section \<open>Webhook payloads\<close>

text \<open>
  The payload of a webhook is JSON that the handlers read with \<open>dict.get\<close>. Where
  the source reads a member and calls \<open>.get\<close> on the value, the member is absent, is
  an object, or is another JSON value, of which only the Python truth value matters
  (\<open>null\<close>, \<open>false\<close>, \<open>0\<close>, the empty string and the empty array are false). A member
  that the source uses as a string or as a number is absent or \<open>null\<close> (both give
  \<open>None\<close>) or has that type.
\<close>

datatype 'a member = Absent | Other bool | Object 'a

record text_message_data =
  textMessage :: "string option"

record extended_text_message_data =
  ext_text :: "string option"    \<comment> \<open>the member \<open>text\<close>\<close>

record message_data =
  chatId :: "string option"
  textMessageData :: "text_message_data member"
  extendedTextMessageData :: "extended_text_message_data member"

record sender_data =
  sender_chatId :: "string option"    \<comment> \<open>the member \<open>chatId\<close> of \<open>senderData\<close>\<close>
  senderName :: "string option"

record payload =
  typeWebhook :: "string option"
  messageData :: "message_data member"
  senderData :: "sender_data member"
  idMessage :: "string option"
  timestamp :: "int option"
  status :: "string option"

text \<open>The empty dict \<open>{}\<close> at each of these types.\<close>

definition empty_text_message_data :: text_message_data where
  "empty_text_message_data = \<lparr>textMessage = None\<rparr>"

definition empty_extended_text_message_data :: extended_text_message_data where
  "empty_extended_text_message_data = \<lparr>ext_text = None\<rparr>"

definition empty_message_data :: message_data where
  "empty_message_data =
     \<lparr>chatId = None, textMessageData = Absent, extendedTextMessageData = Absent\<rparr>"

definition empty_sender_data :: sender_data where
  "empty_sender_data = \<lparr>sender_chatId = None, senderName = None\<rparr>"

definition empty_payload :: payload where
  "empty_payload =
     \<lparr>typeWebhook = None, messageData = Absent, senderData = Absent,
      idMessage = None, timestamp = None, status = None\<rparr>"

text \<open>
  A Python value on which the source calls \<open>.get\<close> is \<open>Some d\<close> for the dict \<open>d\<close> and
  \<open>None\<close> for a value of another type, where the call raises.
\<close>

definition get_default :: "'a member \<Rightarrow> 'a \<Rightarrow> 'a option" where
  \<comment> \<open>\<open>d.get(key, {})\<close>: the default stands in for an absent member only\<close>
  "get_default m e = (case m of Absent \<Rightarrow> Some e | Other b \<Rightarrow> None | Object a \<Rightarrow> Some a)"

definition get_or :: "'a member \<Rightarrow> 'a \<Rightarrow> 'a option" where
  \<comment> \<open>\<open>d.get(key) or {}\<close>: the default stands in for every false value\<close>
  "get_or m e =
     (case m of Absent \<Rightarrow> Some e | Other b \<Rightarrow> (if b then None else Some e) | Object a \<Rightarrow> Some a)"

definition attr :: "'a option \<Rightarrow> ('a \<Rightarrow> 'b) \<Rightarrow> error + 'b" where
  \<comment> \<open>\<open>v.get(key)\<close>\<close>
  "attr v f = (case v of None \<Rightarrow> Inl AttributeError | Some d \<Rightarrow> Inr (f d))"

definition truthy :: "string option \<Rightarrow> bool" where
  \<comment> \<open>the truth value of a string or \<open>None\<close>\<close>
  "truthy v = (case v of None \<Rightarrow> False | Some x \<Rightarrow> x \<noteq> [])"

definition event_time :: "int option \<Rightarrow> datetime \<Rightarrow> error + datetime" where
  \<comment> \<open>\<open>datetime.utcfromtimestamp(timestamp) if timestamp else datetime.utcnow()\<close>\<close>
  "event_time ts utcnow =
     (case ts of
        None \<Rightarrow> Inr utcnow
      | Some t \<Rightarrow> if t \<noteq> 0 then utcfromtimestamp t else Inr utcnow)"

section \<open>The webhook\<close>

datatype reply =
    Ignored string                 \<comment> \<open>\<open>{"status": "ignored", "detail": ...}\<close>\<close>
  | Received                       \<comment> \<open>\<open>{"status": "received"}\<close>\<close>
  | Stored                         \<comment> \<open>\<open>{"status": "stored"}\<close>\<close>
  | Acknowledged "string option"   \<comment> \<open>\<open>{"status": "acknowledged", "detail": status}\<close>\<close>
  | ErrorReply error               \<comment> \<open>\<open>{"error": description, "status": code}\<close>\<close>

type_synonym response = "reply \<times> nat"

definition resolve_conversation ::
  "store \<Rightarrow> string option \<Rightarrow> string option \<Rightarrow> datetime
     \<Rightarrow> error + (conversation \<times> store)" where
  \<comment> \<open>the lookup by \<open>contact_number\<close> and, if it finds no row, the insert and the flush
      (source lines 264 to 273 and 305 to 314)\<close>
  "resolve_conversation s chat_id name t =
     (case find_conversation s chat_id of
        Some c \<Rightarrow> Inr (c, s)
      | None \<Rightarrow> add_conversation s chat_id name t t)"

definition incoming_text :: "payload \<Rightarrow> error + string option" where
  \<comment> \<open>source lines 250, 252 and 253\<close>
  "incoming_text p =
     (case attr (get_default (messageData p) empty_message_data) textMessageData of
        Inl e \<Rightarrow> Inl e
      | Inr tmd \<Rightarrow> attr (get_or tmd empty_text_message_data) textMessage)"

definition handle_incoming_message ::
  "(nat \<Rightarrow> datetime) \<Rightarrow> payload \<Rightarrow> store \<Rightarrow> error + (response \<times> store)" where
  "handle_incoming_message now p s =
     (case incoming_text p of
        Inl e \<Rightarrow> Inl e
      | Inr None \<Rightarrow> Inr ((Ignored ''Mensaje sin texto'', 200), s)
      | Inr (Some txt) \<Rightarrow>
          if txt = [] then Inr ((Ignored ''Mensaje sin texto'', 200), s)
          else
            (case attr (get_default (senderData p) empty_sender_data) (\<lambda>d. d) of
               Inl e \<Rightarrow> Inl e
             | Inr sender \<Rightarrow>
                 let chat_id = sender_chatId sender;
                     name = (if truthy (senderName sender) then senderName sender else chat_id);
                     ext = idMessage p
                 in
                   (case event_time (timestamp p) (now 262) of
                      Inl e \<Rightarrow> Inl e
                    | Inr t \<Rightarrow>
                       (case resolve_conversation s chat_id name t of
                          Inl e \<Rightarrow> Inl e
                        | Inr (c, s1) \<Rightarrow>
                            let s2 = set_updated_at s1 (conv_id c) (now 283);
                                s3 = add_message s2 (conv_id c) ''customer'' txt t ext
                            in Inr ((Received, 200), s3)))))"

definition outgoing_fields :: "payload \<Rightarrow> error + (string option \<times> string option)" where
  \<comment> \<open>source lines 292 to 297: the chat id and the text, the plain text first and the
      extended text if the plain one is false\<close>
  "outgoing_fields p =
     (let md = get_default (messageData p) empty_message_data in
      case attr md chatId of
        Inl e \<Rightarrow> Inl e
      | Inr chat_id \<Rightarrow>
         (case attr md textMessageData of
            Inl e \<Rightarrow> Inl e
          | Inr tmd \<Rightarrow>
             (case attr (get_default tmd empty_text_message_data) textMessage of
                Inl e \<Rightarrow> Inl e
              | Inr plain \<Rightarrow>
                  if truthy plain then Inr (chat_id, plain)
                  else
                    (case attr md extendedTextMessageData of
                       Inl e \<Rightarrow> Inl e
                     | Inr emd \<Rightarrow>
                        (case attr (get_default emd empty_extended_text_message_data) ext_text of
                           Inl e \<Rightarrow> Inl e
                         | Inr extended \<Rightarrow> Inr (chat_id, extended))))))"

definition handle_outgoing_message ::
  "(nat \<Rightarrow> datetime) \<Rightarrow> payload \<Rightarrow> store \<Rightarrow> error + (response \<times> store)" where
  "handle_outgoing_message now p s =
     (case outgoing_fields p of
        Inl e \<Rightarrow> Inl e
      | Inr (chat_id, text) \<Rightarrow>
          let ext = idMessage p in
          (case event_time (timestamp p) (now 300) of
             Inl e \<Rightarrow> Inl e
           | Inr t \<Rightarrow>
              if \<not> (truthy chat_id \<and> truthy text)
              then Inr ((Ignored ''Mensaje saliente sin datos'', 200), s)
              else
                (case (chat_id, text) of
                   (Some number, Some txt) \<Rightarrow>
                     (case resolve_conversation s chat_id chat_id t of
                        Inl e \<Rightarrow> Inl e
                      | Inr (c, s1) \<Rightarrow>
                          let s2 =
                                (case find_existing_message s1 ext (conv_id c) of
                                   Some m \<Rightarrow> set_sent_at s1 (msg_id m) t
                                 | None \<Rightarrow> add_message s1 (conv_id c) ''agent'' txt t ext);
                              s3 = set_updated_at s2 (conv_id c) (now 334)
                          in Inr ((Stored, 200), s3))
                 | _ \<Rightarrow> Inr ((Ignored ''Mensaje saliente sin datos'', 200), s))))"

definition handle_outgoing_status :: "payload \<Rightarrow> store \<Rightarrow> error + (response \<times> store)" where
  "handle_outgoing_status p s =
     (case idMessage p of
        None \<Rightarrow> Inr ((Ignored ''Sin id de mensaje'', 200), s)
      | Some ext \<Rightarrow>
          if ext = [] then Inr ((Ignored ''Sin id de mensaje'', 200), s)
          else
            (case find_message_by_external_id s ext of
               None \<Rightarrow> Inr ((Ignored ''Mensaje desconocido'', 200), s)
             | Some m \<Rightarrow> Inr ((Acknowledged (status p), 200), s)))"

definition green_webhook ::
  "(nat \<Rightarrow> datetime) \<Rightarrow> payload member \<Rightarrow> store \<Rightarrow> error + (response \<times> store)" where
  \<comment> \<open>the body is \<open>Absent\<close> when \<open>request.get_json(silent=True)\<close> finds no JSON\<close>
  "green_webhook now body s =
     (case attr (get_or body empty_payload) (\<lambda>d. d) of
        Inl e \<Rightarrow> Inl e
      | Inr p \<Rightarrow>
          if typeWebhook p = Some ''incomingMessageReceived'' then handle_incoming_message now p s
          else if typeWebhook p = Some ''outgoingMessageReceived'' then handle_outgoing_message now p s
          else if typeWebhook p = Some ''outgoingMessageStatus'' then handle_outgoing_status p s
          else Inr ((Ignored ''Evento no manejado'', 200), s))"

definition error_code :: "error \<Rightarrow> nat" where
  \<comment> \<open>\<open>handle_errors\<close>: the code of an \<open>HTTPException\<close>, 500 for any other exception\<close>
  "error_code e = (case e of HTTPException c \<Rightarrow> (if c = 0 then 500 else c) | _ \<Rightarrow> 500)"

definition webhook_request ::
  "(nat \<Rightarrow> datetime) \<Rightarrow> payload member \<Rightarrow> store \<Rightarrow> response \<times> store" where
  \<comment> \<open>\<open>POST /webhook/green\<close> as the client sees it: an exception that leaves the view
      reaches \<open>handle_errors\<close>, and what the session did not commit is discarded\<close>
  "webhook_request now body s =
     (case green_webhook now body s of
        Inl e \<Rightarrow> ((ErrorReply e, error_code e), s)
      | Inr r \<Rightarrow> r)"

section \<open>The gateway client\<close>

record config =
  instance_id :: "string option"    \<comment> \<open>\<open>GREEN_API_INSTANCE_ID\<close>\<close>
  api_token :: "string option"      \<comment> \<open>\<open>GREEN_API_API_TOKEN\<close>\<close>

record send_reply =
  reply_idMessage :: "string option"    \<comment> \<open>the member \<open>idMessage\<close> of the reply\<close>

record http_response =
  status_code :: nat
  content_type :: "string option"
  json_body :: "send_reply member"    \<comment> \<open>\<open>Absent\<close>: the body is not JSON\<close>

datatype post_result = NoResponse | Response http_response

text \<open>
  The gateway is the function that \<open>requests.post\<close> computes in this request, from the
  \<open>chatId\<close> and the \<open>message\<close> of the JSON it sends: no response (a network error or the
  timeout of 15 seconds) or an HTTP response.
\<close>

type_synonym gateway = "string \<Rightarrow> string \<Rightarrow> post_result"

definition send_whatsapp_message ::
  "config \<Rightarrow> gateway \<Rightarrow> string \<Rightarrow> string \<Rightarrow> error + http_response" where
  "send_whatsapp_message cfg post chat_id txt =
     (if \<not> (truthy (instance_id cfg) \<and> truthy (api_token cfg)) then Inl RuntimeError
      else
        (case normalize_chat_id chat_id of
           Inl e \<Rightarrow> Inl e
         | Inr number \<Rightarrow>
            (case post number txt of
               NoResponse \<Rightarrow> Inl RequestException
             | Response r \<Rightarrow>
                 if 400 \<le> status_code r \<and> status_code r < 600
                 then Inl (HTTPError (status_code r))
                 else Inr r)))"

definition sent_external_id :: "http_response \<Rightarrow> error + string option" where
  \<comment> \<open>source lines 144 and 145, and 207 and 208: \<open>response.json()\<close> if the content type
      is \<open>application/json\<close>, else \<open>{}\<close>; then \<open>data.get("idMessage")\<close>\<close>
  "sent_external_id r =
     (if content_type r = Some ''application/json''
      then
        (case json_body r of
           Absent \<Rightarrow> Inl (ValueError BadJSON)
         | Other b \<Rightarrow> Inl AttributeError
         | Object d \<Rightarrow> Inr (reply_idMessage d))
      else Inr None)"

definition send_message :: "config \<Rightarrow> gateway \<Rightarrow> string \<Rightarrow> string \<Rightarrow> error + string option" where
  \<comment> \<open>the body of the \<open>try\<close> of both views: the send, then the id of the sent message\<close>
  "send_message cfg post chat_id txt =
     (case send_whatsapp_message cfg post chat_id txt of
        Inl e \<Rightarrow> Inl e
      | Inr r \<Rightarrow> sent_external_id r)"

section \<open>The views of the operator\<close>

datatype flash_message =
    NumberRequired              \<comment> \<open>danger, source line 181\<close>
  | InvalidNumber value_error   \<comment> \<open>danger, source line 187\<close>
  | AlreadyExists               \<comment> \<open>info, source line 192\<close>
  | SendHTTPError nat           \<comment> \<open>danger, source line 211\<close>
  | SendFailed error            \<comment> \<open>danger, source line 215\<close>
  | Created                     \<comment> \<open>success, source line 228\<close>

datatype page =
    NewConversationForm "flash_message list"   \<comment> \<open>\<open>new_conversation.html\<close>\<close>
  | ConversationDetail nat "flash_message list"  \<comment> \<open>the redirect to \<open>conversation_detail\<close>\<close>
  | ErrorPage nat                              \<comment> \<open>\<open>error.html\<close> with this code\<close>

record new_conversation_form =
  form_contact_number :: "string option"
  form_contact_name :: "string option"
  form_initial_message :: "string option"

definition form_value :: "string option \<Rightarrow> string" where
  \<comment> \<open>\<open>(request.form.get(key) or "").strip()\<close>\<close>
  "form_value v = strip (case v of None \<Rightarrow> [] | Some x \<Rightarrow> x)"

definition new_conversation ::
  "(nat \<Rightarrow> datetime) \<Rightarrow> config \<Rightarrow> gateway \<Rightarrow> new_conversation_form \<Rightarrow> store
     \<Rightarrow> error + (page \<times> store)" where
  \<comment> \<open>the POST of \<open>/conversation/new\<close>\<close>
  "new_conversation now cfg post form s =
     (let raw_number = form_value (form_contact_number form);
          name = (if form_value (form_contact_name form) = [] then None
                  else Some (form_value (form_contact_name form)));
          initial_message = form_value (form_initial_message form)
      in
        if raw_number = [] then Inr (NewConversationForm [NumberRequired], s)
        else
          (case normalize_chat_id raw_number of
             Inl (ValueError v) \<Rightarrow> Inr (NewConversationForm [InvalidNumber v], s)
           | Inl e \<Rightarrow> Inl e
           | Inr chat_id \<Rightarrow>
              (case find_conversation s (Some chat_id) of
                 Some c \<Rightarrow> Inr (ConversationDetail (conv_id c) [AlreadyExists], s)
               | None \<Rightarrow>
                  (case add_conversation s (Some chat_id) name (now 198) (now 199) of
                     Inl e \<Rightarrow> Inl e
                   | Inr (c, s1) \<Rightarrow>
                       if initial_message \<noteq> [] then
                         (case send_message cfg post chat_id initial_message of
                            Inl (HTTPError code) \<Rightarrow>
                              \<comment> \<open>\<open>db.session.rollback()\<close>\<close>
                              Inr (NewConversationForm [SendHTTPError code], s)
                          | Inl e \<Rightarrow>
                              \<comment> \<open>\<open>db.session.rollback()\<close>\<close>
                              Inr (NewConversationForm [SendFailed e], s)
                          | Inr ext \<Rightarrow>
                              Inr (ConversationDetail (conv_id c) [Created],
                                   add_message s1 (conv_id c) ''agent'' initial_message
                                     (now 222) ext))
                       else Inr (ConversationDetail (conv_id c) [Created], s1)))))"

definition werkzeug_codes :: "nat list" where
  \<comment> \<open>the status codes for which werkzeug (3.1) has an exception class\<close>
  "werkzeug_codes =
     [400, 401, 403, 404, 405, 406, 408, 409, 410, 411, 412, 413, 414, 415, 416, 417, 418,
      421, 422, 423, 424, 428, 429, 431, 451, 500, 501, 502, 503, 504, 505]"

definition abort :: "nat \<Rightarrow> error" where
  \<comment> \<open>\<open>abort(code)\<close>: the exception of this code, or \<open>LookupError\<close> for a code that has none\<close>
  "abort code = (if code \<in> set werkzeug_codes then HTTPException code else LookupError)"

definition conversation_detail ::
  "(nat \<Rightarrow> datetime) \<Rightarrow> config \<Rightarrow> gateway \<Rightarrow> nat \<Rightarrow> string option \<Rightarrow> store
     \<Rightarrow> error + (page \<times> store)" where
  \<comment> \<open>the POST of \<open>/conversation/<id>\<close>, with the form field \<open>message\<close>\<close>
  "conversation_detail now cfg post cid msg s =
     (case get_conversation s cid of
        None \<Rightarrow> Inl (abort 404)
      | Some c \<Rightarrow>
          let txt = form_value msg in
          if txt = [] then Inl (abort 400)
          else
            (case send_message cfg post (contact_number c) txt of
               Inl (HTTPError code) \<Rightarrow> Inl (abort code)
             | Inl e \<Rightarrow> Inl (abort 500)
             | Inr ext \<Rightarrow>
                 let s1 = set_updated_at s (conv_id c) (now 158);
                     s2 = add_message s1 (conv_id c) ''agent'' txt (now 155) ext
                 in Inr (ConversationDetail (conv_id c) [], s2)))"

definition page_request :: "error + (page \<times> store) \<Rightarrow> store \<Rightarrow> page \<times> store" where
  \<comment> \<open>a view as the client sees it: an exception that leaves the view reaches
      \<open>handle_errors\<close>, and what the session did not commit is discarded\<close>
  "page_request r s = (case r of Inl e \<Rightarrow> (ErrorPage (error_code e), s) | Inr x \<Rightarrow> x)"

section \<open>Requests and reachable states\<close>

text \<open>
  The requests that write to the store. The other routes (\<open>GET\<close> of the pages, the
  dashboard, \<open>/health\<close>) only read it.
\<close>

datatype request =
    GreenWebhook "payload member"
  | NewConversation new_conversation_form
  | PostMessage nat "string option"

definition serve ::
  "(nat \<Rightarrow> datetime) \<Rightarrow> config \<Rightarrow> gateway \<Rightarrow> request \<Rightarrow> store \<Rightarrow> store" where
  \<comment> \<open>the committed state after a request\<close>
  "serve now cfg post r s =
     (case r of
        GreenWebhook body \<Rightarrow> snd (webhook_request now body s)
      | NewConversation form \<Rightarrow> snd (page_request (new_conversation now cfg post form s) s)
      | PostMessage i msg \<Rightarrow> snd (page_request (conversation_detail now cfg post i msg s) s))"

inductive reachable :: "store \<Rightarrow> store \<Rightarrow> bool" where
  start: "reachable s s"
| request: "reachable s0 s \<Longrightarrow> reachable s0 (serve now cfg post r s)"

definition unique_contacts :: "store \<Rightarrow> bool" where
  \<comment> \<open>at most one conversation per \<open>contact_number\<close>\<close>
  "unique_contacts s = distinct (map contact_number (conversations s))"

definition unique_message_ids :: "store \<Rightarrow> bool" where
  \<comment> \<open>the primary key of the table of messages\<close>
  "unique_message_ids s = distinct (map msg_id (messages s))"

section \<open>Example data\<close>

text \<open>Concrete stores, events and clocks, for the instances of the theorems below.\<close>

definition example_clock :: "nat \<Rightarrow> datetime" where
  "example_clock l = 1000"

definition example_conversation :: conversation where
  "example_conversation =
     \<lparr>conv_id = 1, contact_number = ''1@c.us'', contact_name = None,
      created_at = 10, updated_at = 10\<rparr>"

definition example_message :: message where
  "example_message =
     \<lparr>msg_id = 1, conversation_id = 1, sender_type = ''agent'', message_text = ''hi'',
      sent_at = 10, external_id = Some ''A''\<rparr>"

definition example_store :: store where
  "example_store = \<lparr>conversations = [example_conversation], messages = [example_message]\<rparr>"

definition empty_store :: store where
  "empty_store = \<lparr>conversations = [], messages = []\<rparr>"

definition outgoing_event :: "string \<Rightarrow> string \<Rightarrow> string option \<Rightarrow> int option \<Rightarrow> payload" where
  \<comment> \<open>an \<open>outgoingMessageReceived\<close> event with a plain text\<close>
  "outgoing_event chat txt ext ts =
     \<lparr>typeWebhook = Some ''outgoingMessageReceived'',
      messageData = Object \<lparr>chatId = Some chat,
        textMessageData = Object \<lparr>textMessage = Some txt\<rparr>,
        extendedTextMessageData = Absent\<rparr>,
      senderData = Absent, idMessage = ext, timestamp = ts, status = None\<rparr>"

definition incoming_event ::
  "sender_data member \<Rightarrow> string \<Rightarrow> string option \<Rightarrow> int option \<Rightarrow> payload" where
  \<comment> \<open>an \<open>incomingMessageReceived\<close> event with a text\<close>
  "incoming_event sender txt ext ts =
     \<lparr>typeWebhook = Some ''incomingMessageReceived'',
      messageData = Object \<lparr>chatId = None,
        textMessageData = Object \<lparr>textMessage = Some txt\<rparr>,
        extendedTextMessageData = Absent\<rparr>,
      senderData = sender, idMessage = ext, timestamp = ts, status = None\<rparr>"

definition status_event :: "string option \<Rightarrow> string option \<Rightarrow> payload" where
  \<comment> \<open>an \<open>outgoingMessageStatus\<close> event\<close>
  "status_event ext st =
     \<lparr>typeWebhook = Some ''outgoingMessageStatus'', messageData = Absent,
      senderData = Absent, idMessage = ext, timestamp = None, status = st\<rparr>"

definition example_form :: new_conversation_form where
  "example_form =
     \<lparr>form_contact_number = Some ''+52 55'', form_contact_name = None,
      form_initial_message = Some ''hello''\<rparr>"

definition no_credentials :: config where
  "no_credentials = \<lparr>instance_id = None, api_token = None\<rparr>"

definition credentials :: config where
  "credentials = \<lparr>instance_id = Some ''7'', api_token = Some ''t''\<rparr>"

definition gateway_down :: gateway where
  \<comment> \<open>no response: a network error or the timeout\<close>
  "gateway_down number txt = NoResponse"

definition gateway_answers :: "nat \<Rightarrow> string option \<Rightarrow> gateway" where
  \<comment> \<open>a response with this status code and, as its JSON, this \<open>idMessage\<close>\<close>
  "gateway_answers code ext number txt =
     Response \<lparr>status_code = code, content_type = Some ''application/json'',
       json_body = Object \<lparr>reply_idMessage = ext\<rparr>\<rparr>"

section \<open>Properties of the normalization\<close>

subsection \<open>Stripping\<close>

lemma dropWhile_noop: "xs = [] \<or> \<not> P (hd xs) \<Longrightarrow> dropWhile P xs = xs"
  by (cases xs) auto

lemma last_dropWhile_ne: "dropWhile P xs \<noteq> [] \<Longrightarrow> last (dropWhile P xs) = last xs"
  by (induction xs) (auto split: if_splits)

lemma filter_dropWhile_neg:
  "(\<And>c. P c \<Longrightarrow> \<not> Q c) \<Longrightarrow> filter Q (dropWhile P xs) = filter Q xs"
  by (induction xs) auto

lemma in_dropWhile: "\<not> P c \<Longrightarrow> c \<in> set (dropWhile P xs) \<longleftrightarrow> c \<in> set xs"
  by (induction xs) auto

lemma isspace_not_digit: "isspace c \<Longrightarrow> \<not> isdigit c"
  by (auto simp: isspace_def isdigit_def Let_def)

lemma at_not_space: "\<not> isspace CHR ''@''"
  by (simp add: isspace_def)

lemma strip_noop:
  assumes "s = [] \<or> (\<not> isspace (hd s) \<and> \<not> isspace (last s))"
  shows "strip s = s"
proof (cases "s = []")
  case True
  then show ?thesis by (simp add: strip_def lstrip_def rstrip_def)
next
  case False
  with assms have h: "\<not> isspace (hd s)" and l: "\<not> isspace (last s)" by auto
  from False l have "dropWhile isspace (rev s) = rev s"
    by (intro dropWhile_noop) (simp add: hd_rev)
  then have "rstrip s = s" by (simp add: rstrip_def)
  moreover from h have "dropWhile isspace s = s" by (intro dropWhile_noop) simp
  ultimately show ?thesis by (simp add: strip_def lstrip_def)
qed

lemma strip_ends:
  "strip s = [] \<or> (\<not> isspace (hd (strip s)) \<and> \<not> isspace (last (strip s)))"
proof (cases "strip s = []")
  case True
  then show ?thesis by simp
next
  case False
  define r where "r = dropWhile isspace (rev s)"
  have st: "strip s = dropWhile isspace (rev r)"
    by (simp add: strip_def lstrip_def rstrip_def r_def)
  have rne: "r \<noteq> []"
    using False by (auto simp: st)
  have "\<not> isspace (hd (strip s))"
    using False unfolding st by (rule hd_dropWhile)
  moreover have "last (strip s) = last (rev r)"
    using False unfolding st by (rule last_dropWhile_ne)
  moreover have "last (rev r) = hd r"
    using rne by (simp add: last_rev)
  moreover have "\<not> isspace (hd r)"
    using rne unfolding r_def by (rule hd_dropWhile)
  ultimately show ?thesis by simp
qed

lemma strip_idem: "strip (strip s) = strip s"
  by (rule strip_noop) (rule strip_ends)

lemma at_in_strip: "CHR ''@'' \<in> set (strip s) \<longleftrightarrow> CHR ''@'' \<in> set s"
  by (simp add: strip_def lstrip_def rstrip_def in_dropWhile at_not_space)

lemma filter_isdigit_strip: "filter isdigit (strip s) = filter isdigit s"
proof -
  have l: "filter isdigit (dropWhile isspace xs) = filter isdigit xs" for xs
    by (rule filter_dropWhile_neg) (rule isspace_not_digit)
  have "filter isdigit (rstrip s) = rev (filter isdigit (dropWhile isspace (rev s)))"
    by (simp add: rstrip_def rev_filter)
  also have "\<dots> = filter isdigit s" by (simp add: l rev_filter)
  finally show ?thesis by (simp add: strip_def lstrip_def l)
qed

lemma strip_digits_suffix:
  assumes "filter isdigit s \<noteq> []"
  shows "strip (filter isdigit s @ ''@c.us'') = filter isdigit s @ ''@c.us''"
proof (rule strip_noop, rule disjI2, rule conjI)
  have "hd (filter isdigit s) \<in> set (filter isdigit s)" using assms by (rule hd_in_set)
  then have "isdigit (hd (filter isdigit s))" by simp
  then show "\<not> isspace (hd (filter isdigit s @ ''@c.us''))"
    using assms isspace_not_digit by (auto simp: hd_append)
  show "\<not> isspace (last (filter isdigit s @ ''@c.us''))"
    by (simp add: isspace_def)
qed

subsection \<open>The cases of the normalization\<close>

text \<open>
  C4, as amended. An input that contains \<open>@\<close> is returned without its leading and
  trailing whitespace, so it is returned unchanged only when it has none. An input
  without \<open>@\<close> loses every character that is not a digit: if no digit remains the
  normalization fails with \<open>ValueError\<close> (the spec's \<open>InvalidIdentifier\<close>), else it
  returns the digits followed by \<open>@c.us\<close>. The four examples of the spec hold.
\<close>

theorem normalize_chat_id_cases:
  "normalize_chat_id s =
     (if CHR ''@'' \<in> set s then Inr (strip s)
      else if filter isdigit s = [] then Inl (ValueError (if s = [] then EmptyNumber else NoDigits))
      else Inr (filter isdigit s @ ''@c.us''))
   \<and> normalize_chat_id ''+52 55 1234 5678'' = Inr ''525512345678@c.us''
   \<and> normalize_chat_id ''123@c.us'' = Inr ''123@c.us''
   \<and> normalize_chat_id '''' = Inl (ValueError EmptyNumber)
   \<and> normalize_chat_id ''abc'' = Inl (ValueError NoDigits)"
proof (intro conjI)
  show "normalize_chat_id s =
     (if CHR ''@'' \<in> set s then Inr (strip s)
      else if filter isdigit s = [] then Inl (ValueError (if s = [] then EmptyNumber else NoDigits))
      else Inr (filter isdigit s @ ''@c.us''))"
    by (auto simp: normalize_chat_id_def at_in_strip filter_isdigit_strip Let_def)
qed (simp_all add: normalize_chat_id_def strip_def lstrip_def rstrip_def isspace_def isdigit_def)

text \<open>
  C4 as it is stated fails: the input \<open>" 123@c.us"\<close> contains \<open>@\<close> and is not
  returned unchanged, since the source strips it (source line 101) before it looks for
  \<open>@\<close>.
\<close>

theorem normalize_chat_id_unchanged_counterexample:
  "CHR ''@'' \<in> set '' 123@c.us'' \<and> normalize_chat_id '' 123@c.us'' = Inr ''123@c.us''
   \<and> normalize_chat_id '' 123@c.us'' \<noteq> Inr '' 123@c.us''"
  by (simp add: normalize_chat_id_def strip_def lstrip_def rstrip_def isspace_def)

subsection \<open>Idempotence\<close>

text \<open>
  C8. Normalization is idempotent: whenever \<open>normalize_chat_id x\<close> succeeds with \<open>y\<close>,
  normalizing \<open>y\<close> succeeds with \<open>y\<close> again.
\<close>

theorem normalize_chat_id_idempotent:
  assumes "normalize_chat_id x = Inr y"
  shows "normalize_chat_id y = Inr y"
proof (cases "CHR ''@'' \<in> set (strip x)")
  case True
  with assms have y: "y = strip x"
    by (auto simp: normalize_chat_id_def split: if_splits)
  from True have "strip x \<noteq> []" by auto
  with True show ?thesis
    unfolding y by (simp add: normalize_chat_id_def strip_idem)
next
  case False
  with assms have d: "filter isdigit (strip x) \<noteq> []" and y: "y = filter isdigit (strip x) @ ''@c.us''"
    by (auto simp: normalize_chat_id_def Let_def split: if_splits)
  have "strip y = y" unfolding y using d by (rule strip_digits_suffix)
  moreover have "CHR ''@'' \<in> set y" by (simp add: y)
  moreover have "y \<noteq> []" by (simp add: y)
  ultimately show ?thesis by (simp add: normalize_chat_id_def)
qed

theorem normalize_chat_id_idempotent_witness:
  "normalize_chat_id ''+52 55 1234 5678'' = Inr ''525512345678@c.us''
   \<and> normalize_chat_id ''525512345678@c.us'' = Inr ''525512345678@c.us''"
proof -
  have h: "normalize_chat_id ''+52 55 1234 5678'' = Inr ''525512345678@c.us''"
    by (simp add: normalize_chat_id_def strip_def lstrip_def rstrip_def isspace_def isdigit_def)
  from h normalize_chat_id_idempotent [OF h] show ?thesis by (rule conjI)
qed

section \<open>Properties of the store\<close>

lemma fold_max_ge: "(a::nat) \<le> fold max xs a"
proof (induction xs arbitrary: a)
  case Nil
  show ?case by simp
next
  case (Cons x xs)
  have "a \<le> max x a" by simp
  also have "\<dots> \<le> fold max xs (max x a)" by (rule Cons.IH)
  finally show ?case by simp
qed

lemma fold_max_mem: "(i::nat) \<in> set xs \<Longrightarrow> i \<le> fold max xs a"
proof (induction xs arbitrary: a)
  case Nil
  then show ?case by simp
next
  case (Cons x xs)
  show ?case
  proof (cases "i = x")
    case True
    have "i \<le> max x a" using True by simp
    also have "\<dots> \<le> fold max xs (max x a)" by (rule fold_max_ge)
    finally show ?thesis by simp
  next
    case False
    with Cons.prems have "i \<in> set xs" by simp
    then show ?thesis by (simp add: Cons.IH)
  qed
qed

lemma next_id_gt: "i \<in> set ids \<Longrightarrow> i < next_id ids"
  by (simp add: next_id_def fold_max_mem less_Suc_eq_le)

lemma next_id_fresh: "next_id ids \<notin> set ids"
  using next_id_gt by blast








lemma find_Some_sat: "find P xs = Some x \<Longrightarrow> P x \<and> x \<in> set xs"
  by (induction xs) (auto split: if_splits)


lemma resolve_conversation_total:
  "\<exists>c s1. resolve_conversation s (Some n) name t = Inr (c, s1)"
  by (simp add: resolve_conversation_def add_conversation_def Let_def split: option.splits)


lemma messages_set_updated_at [simp]: "messages (set_updated_at s cid t) = messages s"
  by (simp add: set_updated_at_def)

lemma conversations_set_sent_at [simp]: "conversations (set_sent_at s mid t) = conversations s"
  by (simp add: set_sent_at_def)

lemma conversations_add_message [simp]:
  "conversations (add_message s cid sender txt t ext) = conversations s"
  by (simp add: add_message_def)


lemma find_conversation_set_sent_at [simp]:
  "find_conversation (set_sent_at s mid t) n = find_conversation s n"
  by (cases n) (simp_all add: find_conversation_def)

lemma find_conversation_add_message [simp]:
  "find_conversation (add_message s cid sender txt t ext) n = find_conversation s n"
  by (cases n) (simp_all add: find_conversation_def)

lemma find_existing_message_set_updated_at [simp]:
  "find_existing_message (set_updated_at s cid t) ext c = find_existing_message s ext c"
  by (simp add: find_existing_message_def)

section \<open>The outgoing handler\<close>


lemma handle_outgoing_message_bad_timestamp:
  assumes "outgoing_fields p = Inr x" "event_time (timestamp p) (now 300) = Inl e"
  shows "handle_outgoing_message now p s = Inl e"
  using assms by (cases x) (simp add: handle_outgoing_message_def Let_def)







subsection \<open>Unfolding the definitions on concrete inputs\<close>

lemmas example_defs =
  example_clock_def example_conversation_def example_message_def example_store_def
  empty_store_def outgoing_event_def incoming_event_def status_event_def

lemmas payload_defs =
  get_default_def get_or_def attr_def truthy_def event_time_def utcfromtimestamp_def
  empty_payload_def empty_message_data_def empty_sender_data_def
  empty_text_message_data_def empty_extended_text_message_data_def

lemmas store_defs =
  next_id_def find_conversation_def get_conversation_def add_conversation_def
  add_message_def set_updated_at_def set_sent_at_def find_existing_message_def
  find_message_by_external_id_def resolve_conversation_def

lemmas webhook_defs =
  incoming_text_def handle_incoming_message_def outgoing_fields_def
  handle_outgoing_message_def handle_outgoing_status_def green_webhook_def
  error_code_def webhook_request_def

subsection \<open>Deduplication of outgoing messages\<close>




subsection \<open>Outgoing messages without a message id\<close>




section \<open>The incoming handler\<close>

lemma handle_incoming_message_Received:
  assumes "handle_incoming_message now p s = Inr ((Received, 200), s')"
  obtains tx sender t c s1 where
      "incoming_text p = Inr (Some tx)" "tx \<noteq> []"
      "attr (get_default (senderData p) empty_sender_data) (\<lambda>d. d) = Inr sender"
      "event_time (timestamp p) (now 262) = Inr t"
      "resolve_conversation s (sender_chatId sender)
        (if truthy (senderName sender) then senderName sender else sender_chatId sender)
        t = Inr (c, s1)"
      "s' = add_message (set_updated_at s1 (conv_id c) (now 283)) (conv_id c) ''customer'' tx
             t (idMessage p)"
  using assms
  by (auto simp: handle_incoming_message_def Let_def split: sum.splits option.splits if_splits)

lemma resolve_conversation_mem:
  assumes "resolve_conversation s n name t = Inr (c, s1)"
  shows "c \<in> set (conversations s1)" "messages s1 = messages s"
  using assms
  by (auto simp: resolve_conversation_def add_conversation_def find_conversation_def Let_def
      split: option.splits dest: find_Some_sat)

text \<open>
  C5 as it is stated fails: an event whose \<open>timestamp\<close> is present and is \<open>0\<close> does
  not receive a \<open>sent_at\<close> derived from it. The test \<open>if timestamp\<close> of source line 262
  is false for \<open>0\<close>, and the message receives the reading of the clock (here 1000).
\<close>

theorem incoming_timestamp_counterexample:
  "handle_incoming_message example_clock
      (incoming_event (Object \<lparr>sender_chatId = Some ''1@c.us'', senderName = None\<rparr>)
         ''hi'' (Some ''B'') (Some 0)) empty_store =
     Inr ((Received, 200),
       \<lparr>conversations = [\<lparr>conv_id = 1, contact_number = ''1@c.us'',
           contact_name = Some ''1@c.us'', created_at = 1000, updated_at = 1000\<rparr>],
        messages = [\<lparr>msg_id = 1, conversation_id = 1, sender_type = ''customer'',
           message_text = ''hi'', sent_at = 1000, external_id = Some ''B''\<rparr>]\<rparr>)
   \<and> timestamp (incoming_event (Object \<lparr>sender_chatId = Some ''1@c.us'', senderName = None\<rparr>)
         ''hi'' (Some ''B'') (Some 0)) = Some 0
   \<and> utcfromtimestamp 0 = Inr 0 \<and> utcfromtimestamp 0 \<noteq> Inr 1000"
  by (simp add: example_defs payload_defs store_defs webhook_defs Let_def)

text \<open>
  C5, as amended. For every \<open>incomingMessageReceived\<close> event with a text that the
  handler stores, exactly one message is appended, with \<open>sender_type = customer\<close>; its
  \<open>sent_at\<close> is derived from the event's Unix timestamp when that is present and not
  zero, and is the reading of the clock at source line 262 otherwise. The
  \<open>updated_at\<close> of its conversation is the reading of the clock at source line 283,
  whatever \<open>sent_at\<close> is.
\<close>

theorem incoming_times:
  assumes "handle_incoming_message now p s = Inr ((Received, 200), s')"
  shows "\<exists>m. messages s' = messages s @ [m] \<and> sender_type m = ''customer'' \<and>
      Inr (sent_at m) =
        (case timestamp p of
           Some ts \<Rightarrow> if ts \<noteq> 0 then utcfromtimestamp ts else Inr (now 262)
         | None \<Rightarrow> Inr (now 262)) \<and>
      (\<exists>c\<in>set (conversations s'). conv_id c = conversation_id m) \<and>
      (\<forall>c\<in>set (conversations s'). conv_id c = conversation_id m \<longrightarrow> updated_at c = now 283)"
  using assms
proof (rule handle_incoming_message_Received)
  fix tx sender t c s1
  assume tm: "event_time (timestamp p) (now 262) = Inr t"
    and res: "resolve_conversation s (sender_chatId sender)
        (if truthy (senderName sender) then senderName sender else sender_chatId sender)
        t = Inr (c, s1)"
    and s': "s' = add_message (set_updated_at s1 (conv_id c) (now 283)) (conv_id c) ''customer'' tx
             t (idMessage p)"
  note mem = resolve_conversation_mem [OF res]
  let ?m = "\<lparr>msg_id = next_id (map msg_id (messages s)), conversation_id = conv_id c,
      sender_type = ''customer'', message_text = tx,
      sent_at = t, external_id = idMessage p\<rparr>"
  have ms: "messages s' = messages s @ [?m]"
    by (simp add: s' add_message_def mem(2))
  have cs: "conversations s' =
      map (\<lambda>x. if conv_id x = conv_id c then x\<lparr>updated_at := now 283\<rparr> else x) (conversations s1)"
    by (simp add: s' set_updated_at_def)
  have t: "Inr (sent_at ?m) =
        (case timestamp p of
           Some ts \<Rightarrow> if ts \<noteq> 0 then utcfromtimestamp ts else Inr (now 262)
         | None \<Rightarrow> Inr (now 262))"
    using tm by (simp add: event_time_def)
  have "c\<lparr>updated_at := now 283\<rparr> \<in> set (conversations s')"
    unfolding cs set_map using mem(1) by (intro image_eqI [where x = c]) simp_all
  then have ex: "\<exists>x\<in>set (conversations s'). conv_id x = conversation_id ?m"
    by (intro bexI [where x = "c\<lparr>updated_at := now 283\<rparr>"]) simp_all
  have all: "\<forall>x\<in>set (conversations s'). conv_id x = conversation_id ?m \<longrightarrow> updated_at x = now 283"
    by (auto simp: cs)
  from ms t ex all show ?thesis
    by (intro exI [of _ ?m] conjI) simp_all
qed

theorem incoming_times_witness:
  "handle_incoming_message example_clock
      (incoming_event (Object \<lparr>sender_chatId = Some ''1@c.us'', senderName = None\<rparr>)
         ''hi'' (Some ''B'') (Some 77)) empty_store =
     Inr ((Received, 200),
       \<lparr>conversations = [\<lparr>conv_id = 1, contact_number = ''1@c.us'',
           contact_name = Some ''1@c.us'', created_at = 77, updated_at = 1000\<rparr>],
        messages = [\<lparr>msg_id = 1, conversation_id = 1, sender_type = ''customer'',
           message_text = ''hi'', sent_at = 77, external_id = Some ''B''\<rparr>]\<rparr>)
   \<and> (\<exists>m. [\<lparr>msg_id = 1, conversation_id = 1, sender_type = ''customer'',
           message_text = ''hi'', sent_at = 77, external_id = Some ''B''\<rparr>] = [m] \<and>
          sender_type m = ''customer'' \<and> sent_at m = 77 \<and> 1 = conversation_id m \<and>
          (1000::int) = example_clock 283)"
proof -
  let ?p = "incoming_event (Object \<lparr>sender_chatId = Some ''1@c.us'', senderName = None\<rparr>)
         ''hi'' (Some ''B'') (Some 77)"
  let ?S = "\<lparr>conversations = [\<lparr>conv_id = 1, contact_number = ''1@c.us'',
           contact_name = Some ''1@c.us'', created_at = 77, updated_at = 1000\<rparr>],
        messages = [\<lparr>msg_id = 1, conversation_id = 1, sender_type = ''customer'',
           message_text = ''hi'', sent_at = 77, external_id = Some ''B''\<rparr>]\<rparr>"
  have h: "handle_incoming_message example_clock ?p empty_store = Inr ((Received, 200), ?S)"
    by (simp add: example_defs payload_defs store_defs webhook_defs Let_def)
  have ts: "timestamp ?p = Some 77" by (simp add: incoming_event_def)
  from incoming_times [OF h]
  have "\<exists>m. [\<lparr>msg_id = 1, conversation_id = 1, sender_type = ''customer'',
           message_text = ''hi'', sent_at = 77, external_id = Some ''B''\<rparr>] = [m] \<and>
          sender_type m = ''customer'' \<and> sent_at m = 77 \<and> 1 = conversation_id m \<and>
          (1000::int) = example_clock 283"
    by (auto simp: ts empty_store_def utcfromtimestamp_def)
  with h show ?thesis by (rule conjI)
qed


section \<open>Status events\<close>

text \<open>
  C6. For every \<open>outgoingMessageStatus\<close> event the handler answers 200 and returns
  the store it received, with no error. An event whose message id equals the
  \<open>external_id\<close> of no stored message is answered "ignored" (unknown message); an
  event whose message id equals the \<open>external_id\<close> of a stored message is answered
  "acknowledged" with the \<open>status\<close> of the event; an event without a message id is
  answered "ignored".
\<close>

theorem outgoing_status_frame:
  "\<exists>r. handle_outgoing_status p s = Inr ((r, 200), s) \<and>
     (typeWebhook p = Some ''outgoingMessageStatus'' \<longrightarrow>
        webhook_request now (Object p) s = ((r, 200), s)) \<and>
     (\<not> truthy (idMessage p) \<longrightarrow> r = Ignored ''Sin id de mensaje'') \<and>
     (\<forall>e. idMessage p = Some e \<and> e \<noteq> [] \<longrightarrow>
        ((\<forall>m\<in>set (messages s). external_id m \<noteq> Some e) \<longrightarrow> r = Ignored ''Mensaje desconocido'') \<and>
        ((\<exists>m\<in>set (messages s). external_id m = Some e) \<longrightarrow> r = Acknowledged (status p)))"
proof (cases "truthy (idMessage p)")
  case False
  then have "handle_outgoing_status p s = Inr ((Ignored ''Sin id de mensaje'', 200), s)"
    by (auto simp: handle_outgoing_status_def truthy_def split: option.splits)
  with False show ?thesis
    by (auto simp: webhook_request_def green_webhook_def attr_def get_or_def truthy_def)
next
  case True
  then obtain e where e: "idMessage p = Some e" "e \<noteq> []"
    by (auto simp: truthy_def split: option.splits)
  show ?thesis
  proof (cases "find_message_by_external_id s e")
    case None
    then have no: "\<forall>m\<in>set (messages s). external_id m \<noteq> Some e"
      by (auto simp: find_message_by_external_id_def find_None_iff)
    from None e have "handle_outgoing_status p s = Inr ((Ignored ''Mensaje desconocido'', 200), s)"
      by (simp add: handle_outgoing_status_def)
    with True e no show ?thesis
      by (auto simp: webhook_request_def green_webhook_def attr_def get_or_def)
  next
    case (Some m)
    then have yes: "\<exists>m\<in>set (messages s). external_id m = Some e"
      by (auto simp: find_message_by_external_id_def dest: find_Some_sat)
    from Some e have "handle_outgoing_status p s = Inr ((Acknowledged (status p), 200), s)"
      by (simp add: handle_outgoing_status_def)
    with True e yes show ?thesis
      by (auto simp: webhook_request_def green_webhook_def attr_def get_or_def)
  qed
qed

theorem outgoing_status_frame_witness:
  "webhook_request example_clock (Object (status_event (Some ''A'') (Some ''delivered'')))
      example_store = ((Acknowledged (Some ''delivered''), 200), example_store)
   \<and> webhook_request example_clock (Object (status_event (Some ''Z'') (Some ''delivered'')))
      example_store = ((Ignored ''Mensaje desconocido'', 200), example_store)"
proof -
  have t: "typeWebhook (status_event i st) = Some ''outgoingMessageStatus''"
    and i: "idMessage (status_event i st) = i" and st: "status (status_event i st) = st" for i st
    by (simp_all add: status_event_def)
  have yes: "\<exists>m\<in>set (messages example_store). external_id m = Some ''A''"
    and no: "\<forall>m\<in>set (messages example_store). external_id m \<noteq> Some ''Z''"
    by (simp_all add: example_store_def example_message_def)
  from outgoing_status_frame [of "status_event (Some ''A'') (Some ''delivered'')" example_store example_clock]
  have a: "webhook_request example_clock (Object (status_event (Some ''A'') (Some ''delivered'')))
      example_store = ((Acknowledged (Some ''delivered''), 200), example_store)"
    using yes by (auto simp: t i st)
  from outgoing_status_frame [of "status_event (Some ''Z'') (Some ''delivered'')" example_store example_clock]
  have b: "webhook_request example_clock (Object (status_event (Some ''Z'') (Some ''delivered'')))
      example_store = ((Ignored ''Mensaje desconocido'', 200), example_store)"
    using no by (auto simp: t i st)
  from a b show ?thesis by (rule conjI)
qed

section \<open>Incoming events without a chat id\<close>

lemma find_conversation_None [simp]: "find_conversation s None = None"
  by (simp add: find_conversation_def)

text \<open>
  C10 as it is stated fails in the way the request fails. When \<open>senderData\<close> is not
  an object (here \<open>null\<close>), the read of its \<open>chatId\<close> at source line 258 raises, and when
  the \<open>timestamp\<close> is outside the years 1 to 9999, \<open>datetime.utcfromtimestamp\<close> raises at
  source line 262: in both cases the handler leaves before the lookup and attempts no
  insert of a conversation.
\<close>

theorem incoming_without_chat_id_counterexample:
  "incoming_text (incoming_event (Other False) ''hi'' (Some ''B'') (Some 77)) = Inr (Some ''hi'')
   \<and> handle_incoming_message example_clock
        (incoming_event (Other False) ''hi'' (Some ''B'') (Some 77)) empty_store =
      Inl AttributeError
   \<and> incoming_text (incoming_event Absent ''hi'' (Some ''B'') (Some 1700000000000)) =
      Inr (Some ''hi'')
   \<and> handle_incoming_message example_clock
        (incoming_event Absent ''hi'' (Some ''B'') (Some 1700000000000)) empty_store =
      Inl (ValueError OutOfRange)
   \<and> AttributeError \<noteq> IntegrityError \<and> ValueError OutOfRange \<noteq> IntegrityError"
  by (simp add: example_defs payload_defs store_defs webhook_defs Let_def)

text \<open>
  C10, as amended. Let an \<open>incomingMessageReceived\<close> event carry a text that is not empty
  and no \<open>chatId\<close> in \<open>senderData\<close>. The lookup with a NULL \<open>contact_number\<close> finds no
  conversation. The handler takes no ignore branch and fails; the request is answered
  500 and the store is the one before the request. When \<open>senderData\<close> is absent or an
  object, and the timestamp is absent, zero or within the years 1 to 9999, the failure
  is the integrity error of the insert of a conversation whose \<open>contact_number\<close> is
  NULL.
\<close>

theorem incoming_without_chat_id:
  assumes ty: "typeWebhook p = Some ''incomingMessageReceived''"
    and tx: "incoming_text p = Inr (Some tx)" "tx \<noteq> []"
    and no: "\<forall>sd. senderData p = Object sd \<longrightarrow> sender_chatId sd = None"
  shows "find_conversation s None = None \<and>
    (\<exists>e. handle_incoming_message now p s = Inl e \<and>
       webhook_request now (Object p) s = ((ErrorReply e, 500), s) \<and>
       ((\<forall>b. senderData p \<noteq> Other b) \<and>
        (\<exists>t. (case timestamp p of
                None \<Rightarrow> Inr (now 262)
              | Some ts \<Rightarrow> if ts \<noteq> 0 then utcfromtimestamp ts else Inr (now 262)) = Inr t)
        \<longrightarrow> e = IntegrityError))"
proof -
  define e where "e =
    (case senderData p of
       Other b \<Rightarrow> AttributeError
     | _ \<Rightarrow> (case event_time (timestamp p) (now 262) of Inl x \<Rightarrow> x | Inr t \<Rightarrow> IntegrityError))"
  have et: "event_time (timestamp p) (now 262) = Inl x \<Longrightarrow> x = ValueError OutOfRange" for x
    by (auto simp: event_time_def utcfromtimestamp_def split: option.splits if_splits)
  have h: "handle_incoming_message now p s = Inl e"
  proof (cases "senderData p")
    case Absent
    with tx show ?thesis
      by (cases "event_time (timestamp p) (now 262)")
        (simp_all add: e_def handle_incoming_message_def attr_def get_default_def
          empty_sender_data_def resolve_conversation_def add_conversation_def Let_def)
  next
    case (Other b)
    with tx show ?thesis
      by (simp add: e_def handle_incoming_message_def attr_def get_default_def)
  next
    case (Object sd)
    with no have "sender_chatId sd = None" by simp
    with Object tx show ?thesis
      by (cases "event_time (timestamp p) (now 262)")
        (simp_all add: e_def handle_incoming_message_def attr_def get_default_def
          resolve_conversation_def add_conversation_def Let_def)
  qed
  have code: "error_code e = 500"
  proof (cases "senderData p")
    case (Other b)
    then show ?thesis by (simp add: e_def error_code_def)
  next
    case Absent
    then show ?thesis
      by (cases "event_time (timestamp p) (now 262)")
        (auto simp: e_def error_code_def dest: et)
  next
    case (Object sd)
    then show ?thesis
      by (cases "event_time (timestamp p) (now 262)")
        (auto simp: e_def error_code_def dest: et)
  qed
  have w: "webhook_request now (Object p) s = ((ErrorReply e, 500), s)"
    using ty h code
    by (simp add: webhook_request_def green_webhook_def attr_def get_or_def)
  have i: "e = IntegrityError"
    if "\<forall>b. senderData p \<noteq> Other b"
      and "\<exists>t. (case timestamp p of
                None \<Rightarrow> Inr (now 262)
              | Some ts \<Rightarrow> if ts \<noteq> 0 then utcfromtimestamp ts else Inr (now 262)) = Inr t"
  proof -
    from that(2) obtain t where "event_time (timestamp p) (now 262) = Inr t"
      by (auto simp: event_time_def)
    with that(1) show ?thesis
      by (cases "senderData p") (auto simp: e_def)
  qed
  from h w i show ?thesis by auto
qed

theorem incoming_without_chat_id_witness:
  "typeWebhook (incoming_event Absent ''hi'' (Some ''B'') (Some 77)) =
      Some ''incomingMessageReceived''
   \<and> incoming_text (incoming_event Absent ''hi'' (Some ''B'') (Some 77)) = Inr (Some ''hi'')
   \<and> senderData (incoming_event Absent ''hi'' (Some ''B'') (Some 77)) = Absent
   \<and> utcfromtimestamp 77 = Inr 77
   \<and> webhook_request example_clock
        (Object (incoming_event Absent ''hi'' (Some ''B'') (Some 77))) example_store =
      ((ErrorReply IntegrityError, 500), example_store)
   \<and> webhook_request example_clock
        (Object (incoming_event (Object \<lparr>sender_chatId = None, senderName = Some ''Ann''\<rparr>)
           ''hi'' (Some ''B'') (Some 77))) empty_store =
      ((ErrorReply IntegrityError, 500), empty_store)"
proof -
  let ?p = "incoming_event Absent ''hi'' (Some ''B'') (Some 77)"
  let ?q = "incoming_event (Object \<lparr>sender_chatId = None, senderName = Some ''Ann''\<rparr>)
           ''hi'' (Some ''B'') (Some 77)"
  have ty: "typeWebhook ?p = Some ''incomingMessageReceived''"
    and tyq: "typeWebhook ?q = Some ''incomingMessageReceived''"
    by (simp_all add: incoming_event_def)
  have tx: "incoming_text ?p = Inr (Some ''hi'')" and txq: "incoming_text ?q = Inr (Some ''hi'')"
    by (simp_all add: incoming_event_def incoming_text_def payload_defs)
  have ne: "''hi'' \<noteq> []" by simp
  have sd: "senderData ?p = Absent"
    and sdq: "senderData ?q = Object \<lparr>sender_chatId = None, senderName = Some ''Ann''\<rparr>"
    by (simp_all add: incoming_event_def)
  have ts: "timestamp ?p = Some 77" "timestamp ?q = Some 77"
    by (simp_all add: incoming_event_def)
  have u: "utcfromtimestamp 77 = Inr 77" by (simp add: utcfromtimestamp_def)
  have no: "\<forall>sd. senderData ?p = Object sd \<longrightarrow> sender_chatId sd = None"
    and noq: "\<forall>sd. senderData ?q = Object sd \<longrightarrow> sender_chatId sd = None"
    by (simp_all add: sd sdq)
  have a: "webhook_request example_clock (Object ?p) example_store =
      ((ErrorReply IntegrityError, 500), example_store)"
    using incoming_without_chat_id [OF ty tx ne no, of example_store example_clock]
    by (auto simp: sd ts u)
  have b: "webhook_request example_clock (Object ?q) empty_store =
      ((ErrorReply IntegrityError, 500), empty_store)"
    using incoming_without_chat_id [OF tyq txq ne noq, of empty_store example_clock]
    by (auto simp: sdq ts u)
  from ty tx sd u a b show ?thesis by (intro conjI)
qed


section \<open>The answers of the webhook\<close>

lemma webhook_answers_200:
  assumes "green_webhook now body s = Inr ((r, code), s')"
  shows "code = 200"
  using assms
  by (auto simp: green_webhook_def handle_incoming_message_def handle_outgoing_message_def
      handle_outgoing_status_def Let_def
      split: sum.splits option.splits if_splits prod.splits)

lemma webhook_unhandled:
  assumes "typeWebhook p \<noteq> Some ''incomingMessageReceived''"
    "typeWebhook p \<noteq> Some ''outgoingMessageReceived''"
    "typeWebhook p \<noteq> Some ''outgoingMessageStatus''"
  shows "webhook_request now (Object p) s = ((Ignored ''Evento no manejado'', 200), s)"
  using assms by (simp add: webhook_request_def green_webhook_def attr_def get_or_def)

lemma webhook_no_json:
  "webhook_request now Absent s = ((Ignored ''Evento no manejado'', 200), s)"
  by (simp add: webhook_request_def green_webhook_def attr_def get_or_def empty_payload_def)

text \<open>
  C7 does not hold of the code. An \<open>incomingMessageReceived\<close> event whose
  \<open>messageData\<close> is \<open>null\<close> is an incoming event without text, and the request fails
  with 500: \<open>payload.get("messageData", {})\<close> (source line 250) returns \<open>None\<close>, and
  \<open>.get\<close> on it raises. The next line of the source guards the same case for
  \<open>textMessageData\<close> with \<open>or {}\<close>, and that event is ignored with 200. The outgoing
  handler (source line 295) fails in the same way on a \<open>null\<close> \<open>textMessageData\<close>, and
  the view itself on a JSON body that is true and not an object.
\<close>

theorem webhook_null_member_fails:
  "webhook_request now
     (Object \<lparr>typeWebhook = Some ''incomingMessageReceived'', messageData = Other False,
        senderData = Absent, idMessage = None, timestamp = None, status = None\<rparr>) s =
     ((ErrorReply AttributeError, 500), s)
   \<and> webhook_request now
     (Object \<lparr>typeWebhook = Some ''incomingMessageReceived'',
        messageData = Object \<lparr>chatId = None, textMessageData = Other False,
          extendedTextMessageData = Absent\<rparr>,
        senderData = Absent, idMessage = None, timestamp = None, status = None\<rparr>) s =
     ((Ignored ''Mensaje sin texto'', 200), s)
   \<and> webhook_request now
     (Object \<lparr>typeWebhook = Some ''outgoingMessageReceived'',
        messageData = Object \<lparr>chatId = Some ''1@c.us'', textMessageData = Other False,
          extendedTextMessageData = Absent\<rparr>,
        senderData = Absent, idMessage = None, timestamp = None, status = None\<rparr>) s =
     ((ErrorReply AttributeError, 500), s)
   \<and> webhook_request now (Other True) s = ((ErrorReply AttributeError, 500), s)"
  by (simp add: payload_defs webhook_defs)

section \<open>Creating a conversation\<close>

lemma send_whatsapp_message_failures:
  "\<not> (truthy (instance_id cfg) \<and> truthy (api_token cfg)) \<Longrightarrow>
     send_whatsapp_message cfg post chat_id tx = Inl RuntimeError"
  "truthy (instance_id cfg) \<Longrightarrow> truthy (api_token cfg) \<Longrightarrow>
     normalize_chat_id chat_id = Inr n \<Longrightarrow> post n tx = NoResponse \<Longrightarrow>
     send_whatsapp_message cfg post chat_id tx = Inl RequestException"
  "truthy (instance_id cfg) \<Longrightarrow> truthy (api_token cfg) \<Longrightarrow>
     normalize_chat_id chat_id = Inr n \<Longrightarrow> post n tx = Response r \<Longrightarrow>
     400 \<le> status_code r \<Longrightarrow> status_code r < 600 \<Longrightarrow>
     send_whatsapp_message cfg post chat_id tx = Inl (HTTPError (status_code r))"
  by (simp_all add: send_whatsapp_message_def)

lemma abort_codes:
  "abort 400 = HTTPException 400" "abort 404 = HTTPException 404"
  "abort 500 = HTTPException 500" "abort 402 = LookupError"
  "error_code LookupError = 500"
  by (simp_all add: abort_def werkzeug_codes_def error_code_def)

lemma send_message_fails:
  "send_whatsapp_message cfg post chat_id tx = Inl e \<Longrightarrow> send_message cfg post chat_id tx = Inl e"
  by (simp add: send_message_def)

lemma new_conversation_send_fails:
  assumes num: "normalize_chat_id (form_value (form_contact_number form)) = Inr chat_id"
    and new: "find_conversation s (Some chat_id) = None"
    and init: "form_value (form_initial_message form) \<noteq> []"
    and fail: "send_message cfg post chat_id (form_value (form_initial_message form)) = Inl e"
  shows "new_conversation now cfg post form s =
     Inr (NewConversationForm
            [case e of HTTPError code \<Rightarrow> SendHTTPError code | _ \<Rightarrow> SendFailed e], s)"
proof -
  from num have "form_value (form_contact_number form) \<noteq> []"
    by (auto simp: normalize_chat_id_def)
  with num new init fail show ?thesis
    by (cases e) (simp_all add: new_conversation_def add_conversation_def Let_def)
qed

text \<open>
  C2. Let the form of \<open>/conversation/new\<close> carry a number that normalizes to a chat id
  with no conversation yet, and an initial message. If the send of that message
  through the gateway fails, whatever the failure (missing credentials, a network error,
  an HTTP error status), the view returns the store as it was before the request: the
  conversation it had flushed is rolled back and no message is stored. The caller
  receives the form again with a flash message that carries the failure.
\<close>

theorem new_conversation_rollback:
  assumes num: "normalize_chat_id (form_value (form_contact_number form)) = Inr chat_id"
    and new: "find_conversation s (Some chat_id) = None"
    and init: "form_value (form_initial_message form) \<noteq> []"
    and fail: "send_whatsapp_message cfg post chat_id (form_value (form_initial_message form)) = Inl e"
  shows "\<exists>flash. new_conversation now cfg post form s = Inr (NewConversationForm [flash], s) \<and>
      page_request (new_conversation now cfg post form s) s = (NewConversationForm [flash], s) \<and>
      flash = (case e of HTTPError code \<Rightarrow> SendHTTPError code | _ \<Rightarrow> SendFailed e)"
proof -
  from fail have "send_message cfg post chat_id (form_value (form_initial_message form)) = Inl e"
    by (rule send_message_fails)
  from new_conversation_send_fails [OF num new init this, of now]
  show ?thesis by (simp add: page_request_def)
qed

lemmas view_defs =
  send_whatsapp_message_def sent_external_id_def send_message_def form_value_def
  new_conversation_def conversation_detail_def page_request_def
  no_credentials_def credentials_def gateway_down_def gateway_answers_def example_form_def

lemmas string_defs =
  normalize_chat_id_def strip_def lstrip_def rstrip_def isspace_def isdigit_def

theorem new_conversation_rollback_witness:
  "normalize_chat_id (form_value (form_contact_number example_form)) = Inr ''5255@c.us''
   \<and> find_conversation example_store (Some ''5255@c.us'') = None
   \<and> form_value (form_initial_message example_form) = ''hello''
   \<and> send_whatsapp_message no_credentials gateway_down ''5255@c.us'' ''hello'' = Inl RuntimeError
   \<and> send_whatsapp_message credentials gateway_down ''5255@c.us'' ''hello'' = Inl RequestException
   \<and> send_whatsapp_message credentials (gateway_answers 503 None) ''5255@c.us'' ''hello'' =
        Inl (HTTPError 503)
   \<and> page_request (new_conversation example_clock no_credentials gateway_down example_form
          example_store) example_store =
        (NewConversationForm [SendFailed RuntimeError], example_store)
   \<and> page_request (new_conversation example_clock credentials gateway_down example_form
          example_store) example_store =
        (NewConversationForm [SendFailed RequestException], example_store)
   \<and> page_request (new_conversation example_clock credentials (gateway_answers 503 None)
          example_form example_store) example_store =
        (NewConversationForm [SendHTTPError 503], example_store)
   \<and> page_request (new_conversation example_clock credentials (gateway_answers 200 (Some ''C''))
          example_form example_store) example_store =
        (ConversationDetail 2 [Created],
         \<lparr>conversations = [example_conversation,
            \<lparr>conv_id = 2, contact_number = ''5255@c.us'', contact_name = None,
              created_at = 1000, updated_at = 1000\<rparr>],
          messages = [example_message,
            \<lparr>msg_id = 2, conversation_id = 2, sender_type = ''agent'', message_text = ''hello'',
              sent_at = 1000, external_id = Some ''C''\<rparr>]\<rparr>)"
proof -
  have num: "normalize_chat_id (form_value (form_contact_number example_form)) = Inr ''5255@c.us''"
    by (simp add: example_form_def form_value_def string_defs)
  have new: "find_conversation example_store (Some ''5255@c.us'') = None"
    by (simp add: example_defs find_conversation_def)
  have init: "form_value (form_initial_message example_form) = ''hello''"
    by (simp add: example_form_def form_value_def string_defs)
  then have ne: "form_value (form_initial_message example_form) \<noteq> []" by simp
  have n2: "normalize_chat_id ''5255@c.us'' = Inr ''5255@c.us''"
    by (simp add: string_defs)
  have f1: "send_whatsapp_message no_credentials gateway_down ''5255@c.us'' ''hello'' = Inl RuntimeError"
    by (simp add: send_whatsapp_message_def no_credentials_def truthy_def)
  have f2: "send_whatsapp_message credentials gateway_down ''5255@c.us'' ''hello'' = Inl RequestException"
    by (simp add: send_whatsapp_message_def credentials_def truthy_def n2 gateway_down_def)
  have f3: "send_whatsapp_message credentials (gateway_answers 503 None) ''5255@c.us'' ''hello'' =
        Inl (HTTPError 503)"
    by (simp add: send_whatsapp_message_def credentials_def truthy_def n2 gateway_answers_def)
  have a: "page_request (new_conversation example_clock no_credentials gateway_down example_form
          example_store) example_store =
        (NewConversationForm [SendFailed RuntimeError], example_store)"
    using new_conversation_rollback [OF num new ne f1 [folded init], of example_clock] by auto
  have b: "page_request (new_conversation example_clock credentials gateway_down example_form
          example_store) example_store =
        (NewConversationForm [SendFailed RequestException], example_store)"
    using new_conversation_rollback [OF num new ne f2 [folded init], of example_clock] by auto
  have c: "page_request (new_conversation example_clock credentials (gateway_answers 503 None)
          example_form example_store) example_store =
        (NewConversationForm [SendHTTPError 503], example_store)"
    using new_conversation_rollback [OF num new ne f3 [folded init], of example_clock] by auto
  have s4: "send_message credentials (gateway_answers 200 (Some ''C'')) ''5255@c.us'' ''hello'' =
      Inr (Some ''C'')"
    by (simp add: send_message_def send_whatsapp_message_def sent_external_id_def
        credentials_def truthy_def n2 gateway_answers_def)
  have d: "page_request (new_conversation example_clock credentials (gateway_answers 200 (Some ''C''))
          example_form example_store) example_store =
        (ConversationDetail 2 [Created],
         \<lparr>conversations = [example_conversation,
            \<lparr>conv_id = 2, contact_number = ''5255@c.us'', contact_name = None,
              created_at = 1000, updated_at = 1000\<rparr>],
          messages = [example_message,
            \<lparr>msg_id = 2, conversation_id = 2, sender_type = ''agent'', message_text = ''hello'',
              sent_at = 1000, external_id = Some ''C''\<rparr>]\<rparr>)"
    using num new init s4
    by (simp add: new_conversation_def page_request_def add_conversation_def add_message_def
        next_id_def example_defs Let_def form_value_def example_form_def strip_def lstrip_def
        rstrip_def isspace_def)
  from num new init f1 f2 f3 a b c d show ?thesis by (intro conjI)
qed

section \<open>One conversation per contact number\<close>

lemma unique_contacts_set_updated_at [simp]:
  "unique_contacts (set_updated_at s cid t) = unique_contacts s"
proof -
  have h: "map (contact_number \<circ> (\<lambda>c. if conv_id c = cid then c\<lparr>updated_at := t\<rparr> else c)) xs =
      map contact_number xs" for xs
    by (induction xs) auto
  show ?thesis by (simp add: unique_contacts_def set_updated_at_def h)
qed

lemma unique_contacts_set_sent_at [simp]:
  "unique_contacts (set_sent_at s mid t) = unique_contacts s"
  by (simp add: unique_contacts_def)

lemma unique_contacts_add_message [simp]:
  "unique_contacts (add_message s cid sender tx t ext) = unique_contacts s"
  by (simp add: unique_contacts_def)

lemma find_conversation_None_iff:
  "find_conversation s (Some n) = None \<longleftrightarrow> n \<notin> set (map contact_number (conversations s))"
  by (auto simp: find_conversation_def find_None_iff)

lemma add_conversation_unique:
  assumes "unique_contacts s" "find_conversation s (Some n) = None"
    and "add_conversation s (Some n) name t u = Inr (c, s1)"
  shows "unique_contacts s1"
  using assms
  by (auto simp: unique_contacts_def add_conversation_def Let_def find_conversation_None_iff)

lemma resolve_conversation_unique:
  assumes "unique_contacts s" "resolve_conversation s chat_id name t = Inr (c, s1)"
  shows "unique_contacts s1"
proof (cases chat_id)
  case None
  with assms show ?thesis
    by (simp add: resolve_conversation_def add_conversation_def)
next
  case (Some n)
  show ?thesis
  proof (cases "find_conversation s (Some n)")
    case None
    with assms Some have "add_conversation s (Some n) name t t = Inr (c, s1)"
      by (simp add: resolve_conversation_def)
    from add_conversation_unique [OF assms(1) None this] show ?thesis .
  next
    case (Some c')
    with assms \<open>chat_id = Some n\<close> show ?thesis
      by (simp add: resolve_conversation_def)
  qed
qed

lemma handle_incoming_message_unique:
  assumes "unique_contacts s" "handle_incoming_message now p s = Inr (r, s')"
  shows "unique_contacts s'"
  using assms
  by (auto simp: handle_incoming_message_def Let_def
      split: sum.splits option.splits if_splits dest: resolve_conversation_unique)

lemma handle_outgoing_message_unique:
  assumes "unique_contacts s" "handle_outgoing_message now p s = Inr (r, s')"
  shows "unique_contacts s'"
  using assms
  by (auto simp: handle_outgoing_message_def Let_def
      split: sum.splits option.splits if_splits prod.splits dest: resolve_conversation_unique)

lemma handle_outgoing_status_same:
  "handle_outgoing_status p s = Inr (r, s') \<Longrightarrow> s' = s"
  by (auto simp: handle_outgoing_status_def split: option.splits if_splits)

lemma webhook_request_unique:
  assumes "unique_contacts s"
  shows "unique_contacts (snd (webhook_request now body s))"
proof (cases "green_webhook now body s")
  case (Inl e)
  with assms show ?thesis by (simp add: webhook_request_def)
next
  case (Inr x)
  obtain r s' where x: "x = (r, s')" by (cases x)
  from Inr x assms have "unique_contacts s'"
    by (auto simp: green_webhook_def split: sum.splits if_splits
        dest: handle_incoming_message_unique handle_outgoing_message_unique
          handle_outgoing_status_same)
  with Inr x show ?thesis by (simp add: webhook_request_def)
qed

lemma new_conversation_unique:
  assumes "unique_contacts s" "new_conversation now cfg post form s = Inr (r, s')"
  shows "unique_contacts s'"
  using assms
  by (auto simp: new_conversation_def add_conversation_def unique_contacts_def
      find_conversation_None_iff add_message_def Let_def
      split: sum.splits option.splits if_splits error.splits)

lemma conversation_detail_unique:
  assumes "unique_contacts s" "conversation_detail now cfg post i msg s = Inr (r, s')"
  shows "unique_contacts s'"
  using assms
  by (auto simp: conversation_detail_def Let_def
      split: sum.splits option.splits if_splits error.splits)

lemma page_request_unique:
  assumes "unique_contacts s" "\<And>r s'. v = Inr (r, s') \<Longrightarrow> unique_contacts s'"
  shows "unique_contacts (snd (page_request v s))"
  using assms by (cases v) (auto simp: page_request_def)

lemma serve_unique:
  assumes "unique_contacts s"
  shows "unique_contacts (serve now cfg post r s)"
proof (cases r)
  case (GreenWebhook body)
  with assms show ?thesis by (simp add: serve_def webhook_request_unique)
next
  case (NewConversation form)
  with assms show ?thesis
    by (simp add: serve_def page_request_unique new_conversation_unique)
next
  case (PostMessage i msg)
  with assms show ?thesis
    by (simp add: serve_def page_request_unique conversation_detail_unique)
qed

lemma new_conversation_existing:
  assumes "normalize_chat_id (form_value (form_contact_number form)) = Inr chat_id"
    and "find_conversation s (Some chat_id) = Some c"
  shows "new_conversation now cfg post form s = Inr (ConversationDetail (conv_id c) [AlreadyExists], s)"
proof -
  from assms(1) have "form_value (form_contact_number form) \<noteq> []"
    by (auto simp: normalize_chat_id_def)
  with assms show ?thesis by (simp add: new_conversation_def Let_def)
qed

text \<open>
  C3. Starting from a store with at most one conversation per \<open>contact_number\<close>,
  every store that the requests can reach (webhook events of every kind, creations of
  conversations, messages of the operator, with any clock, configuration and gateway)
  has at most one conversation per \<open>contact_number\<close>. In such a store, the creation
  of a conversation whose normalized number already has a conversation inserts nothing
  and redirects to that conversation.
\<close>

theorem one_conversation_per_contact:
  assumes "unique_contacts s0" "reachable s0 s"
  shows "unique_contacts s \<and>
    (\<forall>now cfg post form chat_id c.
       normalize_chat_id (form_value (form_contact_number form)) = Inr chat_id \<and>
       find_conversation s (Some chat_id) = Some c \<longrightarrow>
       new_conversation now cfg post form s =
         Inr (ConversationDetail (conv_id c) [AlreadyExists], s))"
proof -
  from assms(2) assms(1) have "unique_contacts s"
  proof (induction rule: reachable.induct)
    case (start s)
    then show ?case .
  next
    case (request s0 s now cfg post r)
    then show ?case by (simp add: serve_unique)
  qed
  then show ?thesis by (simp add: new_conversation_existing)
qed

theorem one_conversation_per_contact_witness:
  "unique_contacts empty_store
   \<and> reachable empty_store
        \<lparr>conversations = [\<lparr>conv_id = 1, contact_number = ''5255@c.us'',
           contact_name = Some ''5255@c.us'', created_at = 77, updated_at = 1000\<rparr>],
         messages = [\<lparr>msg_id = 1, conversation_id = 1, sender_type = ''customer'',
           message_text = ''hi'', sent_at = 77, external_id = Some ''B''\<rparr>]\<rparr>
   \<and> unique_contacts
        \<lparr>conversations = [\<lparr>conv_id = 1, contact_number = ''5255@c.us'',
           contact_name = Some ''5255@c.us'', created_at = 77, updated_at = 1000\<rparr>],
         messages = [\<lparr>msg_id = 1, conversation_id = 1, sender_type = ''customer'',
           message_text = ''hi'', sent_at = 77, external_id = Some ''B''\<rparr>]\<rparr>
   \<and> new_conversation example_clock credentials gateway_down example_form
        \<lparr>conversations = [\<lparr>conv_id = 1, contact_number = ''5255@c.us'',
           contact_name = Some ''5255@c.us'', created_at = 77, updated_at = 1000\<rparr>],
         messages = [\<lparr>msg_id = 1, conversation_id = 1, sender_type = ''customer'',
           message_text = ''hi'', sent_at = 77, external_id = Some ''B''\<rparr>]\<rparr> =
      Inr (ConversationDetail 1 [AlreadyExists],
        \<lparr>conversations = [\<lparr>conv_id = 1, contact_number = ''5255@c.us'',
           contact_name = Some ''5255@c.us'', created_at = 77, updated_at = 1000\<rparr>],
         messages = [\<lparr>msg_id = 1, conversation_id = 1, sender_type = ''customer'',
           message_text = ''hi'', sent_at = 77, external_id = Some ''B''\<rparr>]\<rparr>)"
proof -
  let ?ev = "incoming_event (Object \<lparr>sender_chatId = Some ''5255@c.us'', senderName = None\<rparr>)
         ''hi'' (Some ''B'') (Some 77)"
  let ?c = "\<lparr>conv_id = 1, contact_number = ''5255@c.us'',
           contact_name = Some ''5255@c.us'', created_at = 77, updated_at = 1000\<rparr>"
  let ?S = "\<lparr>conversations = [?c],
         messages = [\<lparr>msg_id = 1, conversation_id = 1, sender_type = ''customer'',
           message_text = ''hi'', sent_at = 77, external_id = Some ''B''\<rparr>]\<rparr>"
  have sv: "serve example_clock credentials gateway_down (GreenWebhook (Object ?ev)) empty_store = ?S"
    by (simp add: serve_def example_defs payload_defs store_defs webhook_defs Let_def)
  have "reachable empty_store
      (serve example_clock credentials gateway_down (GreenWebhook (Object ?ev)) empty_store)"
    by (rule reachable.request) (rule reachable.start)
  then have r: "reachable empty_store ?S" by (simp only: sv)
  have u0: "unique_contacts empty_store"
    by (simp add: unique_contacts_def empty_store_def)
  have num: "normalize_chat_id (form_value (form_contact_number example_form)) = Inr ''5255@c.us''"
    by (simp add: example_form_def form_value_def string_defs)
  have fc: "find_conversation ?S (Some ''5255@c.us'') = Some ?c"
    by (simp add: find_conversation_def)
  note th = one_conversation_per_contact [OF u0 r]
  from th have u: "unique_contacts ?S" by (rule conjunct1)
  from th num fc
  have red: "new_conversation example_clock credentials gateway_down example_form ?S =
      Inr (ConversationDetail (conv_id ?c) [AlreadyExists], ?S)"
    by blast
  then have red': "new_conversation example_clock credentials gateway_down example_form ?S =
      Inr (ConversationDetail 1 [AlreadyExists], ?S)"
    by simp
  from u0 r u red' show ?thesis by (intro conjI)
qed

section \<open>The primary key of the messages\<close>

text \<open>
  The theorems on outgoing messages take a store whose messages have distinct \<open>id\<close>s.
  Every store that the requests reach from such a store is one.
\<close>

lemma unique_message_ids_set_updated_at [simp]:
  "unique_message_ids (set_updated_at s cid t) = unique_message_ids s"
  by (simp add: unique_message_ids_def)

lemma unique_message_ids_set_sent_at [simp]:
  "unique_message_ids (set_sent_at s mid t) = unique_message_ids s"
proof -
  have h: "map (msg_id \<circ> (\<lambda>m. if msg_id m = mid then m\<lparr>sent_at := t\<rparr> else m)) xs =
      map msg_id xs" for xs
    by (induction xs) auto
  show ?thesis by (simp add: unique_message_ids_def set_sent_at_def h)
qed

lemma next_id_fresh_image: "next_id (map f xs) \<notin> f ` set xs"
  using next_id_fresh [of "map f xs"] by simp

lemma unique_message_ids_add_message [simp]:
  "unique_message_ids (add_message s cid sender tx t ext) = unique_message_ids s"
  by (simp add: unique_message_ids_def add_message_def next_id_fresh_image)

lemma unique_message_ids_conversations [simp]:
  "unique_message_ids (s\<lparr>conversations := cs\<rparr>) = unique_message_ids s"
  by (simp add: unique_message_ids_def)

lemma unique_message_ids_resolve:
  "resolve_conversation s chat_id name t = Inr (c, s1) \<Longrightarrow>
     unique_message_ids s1 = unique_message_ids s"
  by (simp add: unique_message_ids_def resolve_conversation_mem)

lemma handle_incoming_message_ids:
  assumes "unique_message_ids s" "handle_incoming_message now p s = Inr (r, s')"
  shows "unique_message_ids s'"
  using assms
  by (auto simp: handle_incoming_message_def Let_def unique_message_ids_resolve
      split: sum.splits option.splits if_splits)

lemma handle_outgoing_message_ids:
  assumes "unique_message_ids s" "handle_outgoing_message now p s = Inr (r, s')"
  shows "unique_message_ids s'"
  using assms
  by (auto simp: handle_outgoing_message_def Let_def unique_message_ids_resolve
      split: sum.splits option.splits if_splits prod.splits)

lemma webhook_request_ids:
  assumes "unique_message_ids s"
  shows "unique_message_ids (snd (webhook_request now body s))"
proof (cases "green_webhook now body s")
  case (Inl e)
  with assms show ?thesis by (simp add: webhook_request_def)
next
  case (Inr x)
  obtain r s' where x: "x = (r, s')" by (cases x)
  from Inr x assms have "unique_message_ids s'"
    by (auto simp: green_webhook_def split: sum.splits if_splits
        dest: handle_incoming_message_ids handle_outgoing_message_ids
          handle_outgoing_status_same)
  with Inr x show ?thesis by (simp add: webhook_request_def)
qed

lemma new_conversation_ids:
  assumes "unique_message_ids s" "new_conversation now cfg post form s = Inr (r, s')"
  shows "unique_message_ids s'"
  using assms
  by (auto simp: new_conversation_def add_conversation_def Let_def
      split: sum.splits option.splits if_splits error.splits)

lemma conversation_detail_ids:
  assumes "unique_message_ids s" "conversation_detail now cfg post i msg s = Inr (r, s')"
  shows "unique_message_ids s'"
  using assms
  by (auto simp: conversation_detail_def Let_def
      split: sum.splits option.splits if_splits error.splits)

lemma page_request_ids:
  assumes "unique_message_ids s" "\<And>r s'. v = Inr (r, s') \<Longrightarrow> unique_message_ids s'"
  shows "unique_message_ids (snd (page_request v s))"
  using assms by (cases v) (auto simp: page_request_def)

lemma reachable_message_ids:
  assumes "reachable s0 s" "unique_message_ids s0"
  shows "unique_message_ids s"
  using assms
proof (induction rule: reachable.induct)
  case (start s)
  then show ?case .
next
  case (request s0 s now cfg post r)
  then have u: "unique_message_ids s" by simp
  show ?case
  proof (cases r)
    case (GreenWebhook body)
    with u show ?thesis by (simp add: serve_def webhook_request_ids)
  next
    case (NewConversation form)
    with u show ?thesis by (simp add: serve_def page_request_ids new_conversation_ids)
  next
    case (PostMessage i msg)
    with u show ?thesis by (simp add: serve_def page_request_ids conversation_detail_ids)
  qed
qed

end
